theory Spec2Isabelle
  imports Complex_Main
begin

section \<open>Values, exceptions and the operating system\<close>

text \<open>
  \<^verbatim>\<open>git-around.py\<close> is dynamically typed: what \<^verbatim>\<open>yaml.safe_load\<close> returns is kept
  as it is in the \<^verbatim>\<open>RepoConfig\<close> objects and only inspected when it is used. The parsed
  document is therefore a value of the type below (null, booleans, integers, strings, lists
  and mappings with string keys, the association list holding each key once), and the
  fields of a \<^verbatim>\<open>RepoConfig\<close> hold such values. The floats, dates and binary values a
  YAML document can also hold are left out.
\<close>

type_synonym path = string

datatype yaml =
    YNull
  | YBool bool
  | YInt int
  | YStr string
  | YList "yaml list"
  | YDict "(string \<times> yaml) list"

datatype exn =
    SystemExit int
  | AttributeError
  | TypeError
  | RuntimeError
  | OSError
  | ValueError
  | CalledProcessError
  | UnicodeDecodeError

text \<open>What \<^verbatim>\<open>with open(path) as f: yaml.safe_load(f)\<close> does to a file that exists.\<close>

datatype yaml_load = YAMLError | OpenFailed | Loaded yaml

text \<open>The \<^verbatim>\<open>CompletedProcess\<close> of \<^verbatim>\<open>subprocess.run(..., capture_output=True, text=True)\<close>.\<close>

record completed =
  returncode :: int
  stdout :: string
  stderr :: string

text \<open>
  What a call of \<^verbatim>\<open>subprocess.run\<close> with these arguments can do. The command may not get
  started: \<^verbatim>\<open>Popen\<close> raises, for instance FileNotFoundError (an OSError) when the
  executable or the working directory does not exist, or TypeError when the command is not a
  string or a list of strings. Once started, the process runs to its exit; the captured
  bytes are decoded afterwards, and when they are not text in the encoding of the locale
  the call raises UnicodeDecodeError, although the process has run and has an exit code.
  Otherwise the call returns the \<^verbatim>\<open>CompletedProcess\<close>.
\<close>

datatype run_outcome = NotStarted exn | Undecodable int | Returned completed

text \<open>
  The library functions the program calls are parameters of the model. The pure ones
  (\<^verbatim>\<open>pathlib\<close> path algebra, \<^verbatim>\<open>fnmatch.fnmatch\<close>, \<^verbatim>\<open>str.strip\<close>, \<^verbatim>\<open>int\<close>) do not
  look at the world \<open>'w\<close>; the file-system queries and the clock read it; running a
  subprocess changes it. A function of the library that can raise returns \<open>None\<close> or
  \<open>Inl\<close> of the exception. \<^verbatim>\<open>time.time()\<close> is a float: the model reads it as the
  rational number it denotes and computes with it exactly.
\<close>

record 'w os =
  expanduser :: "string \<Rightarrow> path option"
  parent :: "path \<Rightarrow> path"
  name :: "path \<Rightarrow> string"
  joinpath :: "path \<Rightarrow> string \<Rightarrow> path"
  home :: path
  fnmatch :: "string \<Rightarrow> string \<Rightarrow> bool"
  str_strip :: "string \<Rightarrow> string"
  py_int :: "string \<Rightarrow> int option"
  exists :: "'w \<Rightarrow> path \<Rightarrow> bool"
  is_dir :: "'w \<Rightarrow> path \<Rightarrow> bool"
  iterdir :: "'w \<Rightarrow> path \<Rightarrow> path list option"
  resolve :: "'w \<Rightarrow> path \<Rightarrow> path"
  read_yaml :: "'w \<Rightarrow> path \<Rightarrow> yaml_load"
  time_time :: "'w \<Rightarrow> rat"
  subprocess_run :: "'w \<Rightarrow> yaml \<Rightarrow> bool \<Rightarrow> path \<Rightarrow> run_outcome \<times> 'w"
  check_output :: "'w \<Rightarrow> yaml \<Rightarrow> path \<Rightarrow> (exn + string) \<times> 'w"

subsection \<open>Python's view of a value\<close>

text \<open>The truth value \<^verbatim>\<open>if v:\<close> and \<^verbatim>\<open>v or d\<close> test.\<close>

fun truthy :: "yaml \<Rightarrow> bool" where
  "truthy YNull = False"
| "truthy (YBool b) = b"
| "truthy (YInt i) = (i \<noteq> 0)"
| "truthy (YStr s) = (s \<noteq> [])"
| "truthy (YList xs) = (xs \<noteq> [])"
| "truthy (YDict kvs) = (kvs \<noteq> [])"

text \<open>
  \<^verbatim>\<open>for x in v\<close>: a list gives its elements, a string its characters, a mapping its
  keys; the other values are not iterable.
\<close>

fun py_iter :: "yaml \<Rightarrow> exn + yaml list" where
  "py_iter (YList xs) = Inr xs"
| "py_iter (YStr s) = Inr (map (\<lambda>c. YStr [c]) s)"
| "py_iter (YDict kvs) = Inr (map (\<lambda>kv. YStr (fst kv)) kvs)"
| "py_iter YNull = Inl TypeError"
| "py_iter (YBool b) = Inl TypeError"
| "py_iter (YInt i) = Inl TypeError"

text \<open>\<^verbatim>\<open>d.get(k, default)\<close> on a dict.\<close>

definition dict_get :: "(string \<times> yaml) list \<Rightarrow> string \<Rightarrow> yaml \<Rightarrow> yaml" where
  "dict_get kvs k dflt = (case map_of kvs k of None \<Rightarrow> dflt | Some v \<Rightarrow> v)"

section \<open>RepoConfig and GitAroundConfig.load_from_file\<close>

record RepoConfig =
  path :: path
  auto_pull :: yaml
  auto_push :: yaml
  clean :: yaml
  update_submodules :: yaml
  commands :: yaml

text \<open>\<^verbatim>\<open>RepoConfig.__init__\<close>: the fields as given, \<^verbatim>\<open>commands or []\<close>.\<close>

definition RepoConfig_init :: "path \<Rightarrow> yaml \<Rightarrow> yaml \<Rightarrow> yaml \<Rightarrow> yaml \<Rightarrow> yaml \<Rightarrow> RepoConfig" where
  "RepoConfig_init p pull push cl sub cmds =
     \<lparr>path = p, auto_pull = pull, auto_push = push, clean = cl, update_submodules = sub,
      commands = (if truthy cmds then cmds else YList [])\<rparr>"

text \<open>\<^verbatim>\<open>any(ch in raw_path for ch in ['*', '?', '['])\<close>\<close>

definition has_glob :: "string \<Rightarrow> bool" where
  "has_glob raw_path = list_ex (\<lambda>ch. ch \<in> set raw_path) [CHR ''*'', CHR ''?'', CHR ''['']"

text \<open>
  Lines 66 to 77: from the value under \<^verbatim>\<open>path\<close> to the list \<^verbatim>\<open>matched_paths\<close>.
  \<^verbatim>\<open>Path(raw_path)\<close> raises TypeError unless the value is a string, \<^verbatim>\<open>expanduser\<close>
  raises RuntimeError when the home directory of a \<^verbatim>\<open>~user\<close> is unknown, and
  \<^verbatim>\<open>iterdir\<close> raises OSError when the search root cannot be listed.
\<close>

definition matched_paths :: "'w os \<Rightarrow> 'w \<Rightarrow> yaml \<Rightarrow> exn + path list" where
  "matched_paths env w raw =
     (case raw of
        YStr raw_path \<Rightarrow>
          (case expanduser env raw_path of
             None \<Rightarrow> Inl RuntimeError
           | Some expanded \<Rightarrow>
               if has_glob raw_path then
                 (let base = (if exists env w (parent env expanded)
                              then parent env expanded else home env);
                      pattern = name env expanded
                  in case iterdir env w base of
                       None \<Rightarrow> Inl OSError
                     | Some ps \<Rightarrow>
                         Inr (map (resolve env w)
                               (filter (\<lambda>p. fnmatch env (name env p) pattern
                                          \<and> is_dir env w (joinpath env p ''.git'')) ps)))
               else if is_dir env w expanded then Inr [resolve env w expanded]
               else Inr [])
      | _ \<Rightarrow> Inl TypeError)"

text \<open>One pass of the loop over the entries (lines 66 to 88); \<^verbatim>\<open>entry.get\<close> needs a dict.\<close>

definition load_entry :: "'w os \<Rightarrow> 'w \<Rightarrow> yaml \<Rightarrow> exn + RepoConfig list" where
  "load_entry env w entry =
     (case entry of
        YDict kvs \<Rightarrow>
          (case matched_paths env w (dict_get kvs ''path'' YNull) of
             Inl e \<Rightarrow> Inl e
           | Inr ps \<Rightarrow>
               Inr (map (\<lambda>repo_path.
                      RepoConfig_init repo_path
                        (dict_get kvs ''auto_pull'' (YBool True))
                        (dict_get kvs ''auto_push'' (YBool False))
                        (dict_get kvs ''clean'' (YBool False))
                        (dict_get kvs ''update_submodules'' (YBool False))
                        (dict_get kvs ''commands'' (YList []))) ps))
      | _ \<Rightarrow> Inl AttributeError)"

fun load_entries :: "'w os \<Rightarrow> 'w \<Rightarrow> yaml list \<Rightarrow> exn + RepoConfig list" where
  "load_entries env w [] = Inr []"
| "load_entries env w (entry # entries) =
     (case load_entry env w entry of
        Inl e \<Rightarrow> Inl e
      | Inr repos \<Rightarrow>
          (case load_entries env w entries of
             Inl e \<Rightarrow> Inl e
           | Inr later \<Rightarrow> Inr (repos @ later)))"

text \<open>
  \<^verbatim>\<open>GitAroundConfig.load_from_file\<close>. \<^verbatim>\<open>sys.exit(1)\<close> follows \<^verbatim>\<open>logging.error\<close> in
  both places where it occurs; only \<^verbatim>\<open>yaml.YAMLError\<close> is caught around the read. The
  loader is modelled by what it returns or raises; its other log calls are left out.
\<close>

definition load_from_file :: "'w os \<Rightarrow> 'w \<Rightarrow> path \<Rightarrow> exn + RepoConfig list" where
  "load_from_file env w p =
     (if \<not> exists env w p then Inl (SystemExit 1)
      else case read_yaml env w p of
             YAMLError \<Rightarrow> Inl (SystemExit 1)
           | OpenFailed \<Rightarrow> Inl OSError
           | Loaded data \<Rightarrow>
               (case data of
                  YDict kvs \<Rightarrow>
                    (case py_iter (dict_get kvs ''repos'' (YList [])) of
                       Inl e \<Rightarrow> Inl e
                     | Inr entries \<Rightarrow> load_entries env w entries)
                | _ \<Rightarrow> Inl AttributeError))"

section \<open>GitAround\<close>

text \<open>
  The program acts on the world and on the log. A state holds both: the world, which a
  subprocess changes, and the trace, the list of everything the program has done so far
  that can be seen from outside, in order: every call of \<^verbatim>\<open>logging\<close> with its level, and
  every start of a subprocess (\<^verbatim>\<open>subprocess.run\<close> or \<^verbatim>\<open>subprocess.check_output\<close>)
  with the command, the \<^verbatim>\<open>shell\<close> flag and the working directory.
\<close>

datatype level = DEBUG | INFO | WARNING | ERROR

datatype message =
    Running
  | ProcessingAt path
  | NotADirectory path
  | ProcessingRepo path
  | DryRunWould string yaml path
  | Executing string yaml path
  | CommandFailed string yaml
  | Output string
  | Scanning "int option"
  | Stale path rat
  | NoLastCommit path

datatype event = Log level message | Subprocess yaml bool path

record 'w state =
  world :: 'w
  trace :: "event list"

text \<open>A method returns the exception it raised, if any, and the state it left.\<close>

type_synonym 'w action = "'w state \<Rightarrow> exn option \<times> 'w state"

definition logging :: "level \<Rightarrow> message \<Rightarrow> 'w state \<Rightarrow> 'w state" where
  "logging lvl m st = st\<lparr>trace := trace st @ [Log lvl m]\<rparr>"

text \<open>A \<^verbatim>\<open>for\<close> loop whose body may raise: the first exception ends it.\<close>

fun for_each :: "('a \<Rightarrow> 'w action) \<Rightarrow> 'a list \<Rightarrow> 'w action" where
  "for_each body [] st = (None, st)"
| "for_each body (x # xs) st =
     (case body x st of
        (None, st') \<Rightarrow> for_each body xs st'
      | (Some e, st') \<Rightarrow> (Some e, st'))"

record GitAround =
  config :: "RepoConfig list"
  dry_run :: bool
  stale_days :: "int option"

definition git_pull :: yaml where
  "git_pull = YList [YStr ''git'', YStr ''pull'']"

definition git_clean :: yaml where
  "git_clean = YList [YStr ''git'', YStr ''clean'', YStr ''-fd'']"

definition git_submodule_update :: yaml where
  "git_submodule_update =
     YList [YStr ''git'', YStr ''submodule'', YStr ''update'', YStr ''--init'', YStr ''--recursive'']"

definition git_push :: yaml where
  "git_push = YList [YStr ''git'', YStr ''push'']"

definition git_log :: yaml where
  "git_log = YList [YStr ''git'', YStr ''log'', YStr ''-1'', YStr ''--format=%ct'']"

text \<open>\<^verbatim>\<open>GitAround._run_command\<close>. Nothing around \<^verbatim>\<open>subprocess.run\<close> catches an exception.\<close>

definition run_command :: "'w os \<Rightarrow> GitAround \<Rightarrow> yaml \<Rightarrow> bool \<Rightarrow> path \<Rightarrow> 'w action" where
  "run_command env self cmd shell cwd st =
     (let desc = (if shell then ''shell'' else ''git'') in
      if dry_run self then (None, logging INFO (DryRunWould desc cmd cwd) st)
      else
        (let st1 = logging INFO (Executing desc cmd cwd) st;
             st2 = st1\<lparr>trace := trace st1 @ [Subprocess cmd shell cwd]\<rparr>
         in case subprocess_run env (world st2) cmd shell cwd of
              (NotStarted e, w') \<Rightarrow> (Some e, st2\<lparr>world := w'\<rparr>)
            | (Undecodable code, w') \<Rightarrow> (Some UnicodeDecodeError, st2\<lparr>world := w'\<rparr>)
            | (Returned result, w') \<Rightarrow>
                if returncode result \<noteq> 0
                then (None, logging ERROR (Output (stderr result))
                              (logging ERROR (CommandFailed desc cmd) (st2\<lparr>world := w'\<rparr>)))
                else (None, logging DEBUG (Output (stdout result)) (st2\<lparr>world := w'\<rparr>))))"

text \<open>\<^verbatim>\<open>GitAround._process_repo\<close>\<close>

definition process_repo :: "'w os \<Rightarrow> GitAround \<Rightarrow> RepoConfig \<Rightarrow> 'w action" where
  "process_repo env self repo st =
     (let st1 = logging INFO (ProcessingRepo (path repo)) st;
          git_tasks = [(git_pull, auto_pull repo),
                       (git_clean, clean repo),
                       (git_submodule_update, update_submodules repo)]
      in case for_each (\<lambda>(cmd_args, enabled) s.
                          if truthy enabled then run_command env self cmd_args False (path repo) s
                          else (None, s)) git_tasks st1 of
           (Some e, st2) \<Rightarrow> (Some e, st2)
         | (None, st2) \<Rightarrow>
             (case py_iter (commands repo) of
                Inl e \<Rightarrow> (Some e, st2)
              | Inr cmds \<Rightarrow>
                  (case for_each (\<lambda>cmd. run_command env self cmd True (path repo)) cmds st2 of
                     (Some e, st3) \<Rightarrow> (Some e, st3)
                   | (None, st3) \<Rightarrow>
                       if truthy (auto_push repo)
                       then run_command env self git_push False (path repo) st3
                       else (None, st3))))"

text \<open>
  \<^verbatim>\<open>GitAround._report_stale\<close>: the body of its loop for a given cutoff, then the method.
  The cutoff is computed once, before the loop (\<^verbatim>\<open>None * 86400\<close> is a TypeError). Only
  \<^verbatim>\<open>CalledProcessError\<close> is caught; \<^verbatim>\<open>int(ts)\<close> raises ValueError on anything that is
  not an integer literal. The dry-run flag is not read here. The source computes the cutoff
  and the age in floats, which round beyond 53 bits and raise OverflowError when
  \<^verbatim>\<open>stale_days * 86400\<close> is beyond their range; the model computes exactly.
\<close>

definition stale_repo :: "'w os \<Rightarrow> rat \<Rightarrow> RepoConfig \<Rightarrow> 'w action" where
  "stale_repo env cutoff repo_cfg st =
     (let git_dir = path repo_cfg in
      if \<not> is_dir env (world st) git_dir then (None, st)
      else
        (let st1 = st\<lparr>trace := trace st @ [Subprocess git_log False git_dir]\<rparr>
         in case check_output env (world st1) git_log git_dir of
              (Inl e, w') \<Rightarrow>
                if e = CalledProcessError
                then (None, logging WARNING (NoLastCommit (path repo_cfg)) (st1\<lparr>world := w'\<rparr>))
                else (Some e, st1\<lparr>world := w'\<rparr>)
            | (Inr out, w') \<Rightarrow>
                (case py_int env (str_strip env out) of
                   None \<Rightarrow> (Some ValueError, st1\<lparr>world := w'\<rparr>)
                 | Some last_commit \<Rightarrow>
                     (let age_days = (time_time env w' - of_int last_commit) / 86400 in
                      if of_int last_commit < cutoff
                         \<or> (truthy (update_submodules repo_cfg)
                             \<and> exists env w' (joinpath env (path repo_cfg) ''.gitmodules''))
                      then (None, logging INFO (Stale (path repo_cfg) age_days) (st1\<lparr>world := w'\<rparr>))
                      else (None, st1\<lparr>world := w'\<rparr>)))))"

definition report_stale :: "'w os \<Rightarrow> GitAround \<Rightarrow> 'w action" where
  "report_stale env self st =
     (let st1 = logging INFO (Scanning (stale_days self)) st in
      case stale_days self of
        None \<Rightarrow> (Some TypeError, st1)
      | Some days \<Rightarrow>
          (let cutoff = time_time env (world st1) - of_int (days * 86400)
           in for_each (stale_repo env cutoff) (config self) st1))"

text \<open>
  \<^verbatim>\<open>GitAround.run\<close>: the body of its loop, and the method. \<^verbatim>\<open>Path.is_dir\<close> is
  modelled by the answer it returns; the OSError it raises for a path that cannot be
  examined (no search permission, a name that is too long) is not part of the model, and
  every statement below about a plan is made for the answer \<^verbatim>\<open>is_dir\<close> gave for it.
\<close>

definition run_repo :: "'w os \<Rightarrow> GitAround \<Rightarrow> RepoConfig \<Rightarrow> 'w action" where
  "run_repo env self repo_cfg st =
     (let st1 = logging INFO (ProcessingAt (path repo_cfg)) st in
      if \<not> is_dir env (world st1) (path repo_cfg)
      then (None, logging WARNING (NotADirectory (path repo_cfg)) st1)
      else process_repo env self repo_cfg st1)"

definition run :: "'w os \<Rightarrow> GitAround \<Rightarrow> 'w action" where
  "run env self st =
     (if stale_days self \<noteq> None then report_stale env self st
      else for_each (run_repo env self) (config self) (logging INFO Running st))"

subsection \<open>Reading a trace\<close>

text \<open>The subprocesses that were started, and the commands a dry run described.\<close>

fun started :: "event list \<Rightarrow> (yaml \<times> bool \<times> path) list" where
  "started [] = []"
| "started (Subprocess cmd shell cwd # es) = (cmd, shell, cwd) # started es"
| "started (Log lvl m # es) = started es"


section \<open>What the specification prescribes\<close>

text \<open>
  The task sequence of one plan in the words of the specification: pull, clean and
  submodule update where enabled, every extra command in list order, push last where
  enabled. A task is the command, the \<^verbatim>\<open>shell\<close> flag and the working directory.
\<close>

definition spec_task_sequence :: "RepoConfig \<Rightarrow> yaml list \<Rightarrow> (yaml \<times> bool \<times> path) list" where
  "spec_task_sequence repo cmds =
     (if truthy (auto_pull repo) then [(git_pull, False, path repo)] else []) @
     (if truthy (clean repo) then [(git_clean, False, path repo)] else []) @
     (if truthy (update_submodules repo) then [(git_submodule_update, False, path repo)] else []) @
     map (\<lambda>cmd. (cmd, True, path repo)) cmds @
     (if truthy (auto_push repo) then [(git_push, False, path repo)] else [])"

text \<open>Running one task is the call of \<^verbatim>\<open>_run_command\<close> it stands for.\<close>

definition run_task :: "'w os \<Rightarrow> GitAround \<Rightarrow> yaml \<times> bool \<times> path \<Rightarrow> 'w action" where
  "run_task env self t = (case t of (cmd, shell, cwd) \<Rightarrow> run_command env self cmd shell cwd)"

text \<open>
  Every call of \<^verbatim>\<open>subprocess.run\<close> for the tasks of the list, made one after the other
  from the given world, returns its \<^verbatim>\<open>CompletedProcess\<close>, whatever the exit code is.
  Nothing is said of any other command or any other world.
\<close>

fun all_return :: "'w os \<Rightarrow> (yaml \<times> bool \<times> path) list \<Rightarrow> 'w \<Rightarrow> bool" where
  "all_return env [] w = True"
| "all_return env ((cmd, shell, cwd) # ts) w =
     (case subprocess_run env w cmd shell cwd of
        (Returned result, w') \<Rightarrow> all_return env ts w'
      | (NotStarted e, w') \<Rightarrow> False
      | (Undecodable code, w') \<Rightarrow> False)"

section \<open>A concrete environment\<close>

text \<open>
  A small machine on which the theorems below are instantiated. Paths are written with
  \<^verbatim>\<open>/\<close>; \<^verbatim>\<open>/src\<close> holds the repositories \<^verbatim>\<open>a\<close> (with submodules) and \<^verbatim>\<open>b\<close> and the
  plain directory \<^verbatim>\<open>notes\<close>; \<^verbatim>\<open>/plain\<close> is a directory without \<^verbatim>\<open>.git\<close>; the home
  directory is empty. The world counts the subprocesses started so far. A git command
  succeeds, except in \<^verbatim>\<open>/plain\<close>, where it exits with status 128; every shell command
  exits with status 1. The clock stands at 1702592000 seconds and every last commit is at
  1700000000 seconds, 30 days earlier to the second. The glob matcher knows the pattern \<^verbatim>\<open>*\<close> and
  literal names.
\<close>

definition demo_os :: "nat os" where
  "demo_os =
     \<lparr>expanduser = (\<lambda>s. Some s),
      parent = (\<lambda>p. rev (tl (dropWhile (\<lambda>c. c \<noteq> CHR ''/'') (rev p)))),
      name = (\<lambda>p. rev (takeWhile (\<lambda>c. c \<noteq> CHR ''/'') (rev p))),
      joinpath = (\<lambda>p s. p @ ''/'' @ s),
      home = ''/home/u'',
      fnmatch = (\<lambda>n pat. pat = ''*'' \<or> n = pat),
      str_strip = filter (\<lambda>c. c \<noteq> CHR '' ''),
      py_int = (\<lambda>s. if s = ''1700000000'' then Some 1700000000 else None),
      exists = (\<lambda>w p. p \<in> set [''/cfg.yaml'', ''/home/u'', ''/src'', ''/src/a'', ''/src/a/.git'',
                                  ''/src/a/.gitmodules'', ''/src/b'', ''/src/b/.git'', ''/src/notes'',
                                  ''/plain'']),
      is_dir = (\<lambda>w p. p \<in> set [''/home/u'', ''/src'', ''/src/a'', ''/src/a/.git'', ''/src/b'',
                                  ''/src/b/.git'', ''/src/notes'', ''/plain'']),
      iterdir = (\<lambda>w p. if p = ''/src'' then Some [''/src/a'', ''/src/b'', ''/src/notes'']
                         else if p = ''/home/u'' then Some [] else None),
      resolve = (\<lambda>w p. p),
      read_yaml = (\<lambda>w p. Loaded (YDict [(''repos'', YList [YDict [(''path'', YStr ''/plain'')]])])),
      time_time = (\<lambda>w. 1702592000),
      subprocess_run = (\<lambda>w cmd shell cwd.
         (Returned \<lparr>returncode = (if shell then 1 else if cwd = ''/plain'' then 128 else 0),
                    stdout = ''out'', stderr = ''err''\<rparr>, Suc w)),
      check_output = (\<lambda>w cmd cwd. (Inr ''1700000000'', Suc w))\<rparr>"

text \<open>The same machine without a \<^verbatim>\<open>git\<close> executable.\<close>

definition no_git_os :: "nat os" where
  "no_git_os =
     demo_os\<lparr>subprocess_run := (\<lambda>w cmd shell cwd.
        (if shell then Returned \<lparr>returncode = 1, stdout = ''out'', stderr = ''err''\<rparr>
         else NotStarted OSError, Suc w))\<rparr>"

text \<open>
  The same machine where the first command that runs removes its working directory: every
  later call of \<^verbatim>\<open>subprocess.run\<close> raises FileNotFoundError, an OSError.
\<close>

definition cwd_gone_os :: "nat os" where
  "cwd_gone_os =
     demo_os\<lparr>subprocess_run := (\<lambda>w cmd shell cwd.
        (if w = 0 then Returned \<lparr>returncode = 0, stdout = ''out'', stderr = ''err''\<rparr>
         else NotStarted OSError, Suc w))\<rparr>"

text \<open>
  The same machine where every shell command runs, writes bytes that are not text to its
  standard error and exits with status 1.
\<close>

definition garbled_os :: "nat os" where
  "garbled_os =
     demo_os\<lparr>subprocess_run := (\<lambda>w cmd shell cwd.
        (if shell then Undecodable 1
         else Returned \<lparr>returncode = 0, stdout = ''out'', stderr = ''err''\<rparr>, Suc w))\<rparr>"


text \<open>The same machine with other configuration files.\<close>

definition null_config_os :: "nat os" where
  "null_config_os = demo_os\<lparr>read_yaml := (\<lambda>w p. Loaded YNull)\<rparr>"

definition no_path_os :: "nat os" where
  "no_path_os =
     demo_os\<lparr>read_yaml := (\<lambda>w p. Loaded (YDict [(''repos'',
        YList [YDict [(''path'', YStr ''/src/*'')], YDict [(''auto_push'', YBool True)]])]))\<rparr>"

definition bad_yaml_os :: "nat os" where
  "bad_yaml_os = demo_os\<lparr>read_yaml := (\<lambda>w p. YAMLError)\<rparr>"

definition repo_a :: RepoConfig where
  "repo_a = RepoConfig_init ''/src/a'' (YBool True) (YBool True) (YBool True) (YBool True)
              (YList [YStr ''make'', YStr ''make test''])"

definition repo_b :: RepoConfig where
  "repo_b = RepoConfig_init ''/src/b'' (YBool True) (YBool False) (YBool False) (YBool False) (YList [])"

definition repo_make :: RepoConfig where
  "repo_make = RepoConfig_init ''/src/b'' (YBool False) (YBool True) (YBool False) (YBool False)
                 (YList [YStr ''make'', YStr ''make test''])"

definition repo_gone :: RepoConfig where
  "repo_gone = RepoConfig_init ''/gone'' (YBool True) (YBool True) (YBool False) (YBool False) (YList [])"

definition repo_plain :: RepoConfig where
  "repo_plain = RepoConfig_init ''/plain'' (YBool True) (YBool False) (YBool False) (YBool False) (YList [])"

definition start :: "nat state" where
  "start = \<lparr>world = 0, trace = []\<rparr>"

section \<open>Loops and traces\<close>

lemma run_task_simp: "run_task env self (cmd, shell, cwd) = run_command env self cmd shell cwd"
  by (simp add: run_task_def)

lemma started_append: "started (xs @ ys) = started xs @ started ys"
  by (induction xs rule: started.induct) auto


lemma for_each_append:
  "for_each body (xs @ ys) st =
     (case for_each body xs st of (None, st') \<Rightarrow> for_each body ys st' | (Some e, st') \<Rightarrow> (Some e, st'))"
  by (induction xs arbitrary: st) (auto split: prod.splits option.splits)

lemma for_each_map:
  "for_each body (map f xs) st = for_each (\<lambda>x. body (f x)) xs st"
  by (induction xs arbitrary: st) (auto split: prod.splits option.splits)

lemma git_tasks_loop:
  "for_each (\<lambda>(cmd_args, enabled) s.
               if truthy enabled then run_command env self cmd_args False d s else (None, s)) gts st
   = for_each (run_task env self) (map (\<lambda>t. (fst t, False, d)) (filter (\<lambda>t. truthy (snd t)) gts)) st"
  by (induction gts arbitrary: st) (auto simp: run_task_simp split: prod.splits option.splits)

lemma push_loop:
  "(if b then run_command env self c False d st else (None, st))
   = for_each (run_task env self) (if b then [(c, False, d)] else []) st"
  by (simp add: run_task_simp split: prod.splits option.splits)

lemma shell_loop:
  "for_each (\<lambda>cmd. run_command env self cmd True d) cmds st
   = for_each (run_task env self) (map (\<lambda>cmd. (cmd, True, d)) cmds) st"
  by (simp add: for_each_map run_task_simp)

lemma spec_task_sequence_alt:
  "spec_task_sequence repo cmds =
     map (\<lambda>t. (fst t, False, path repo))
       (filter (\<lambda>t. truthy (snd t))
          [(git_pull, auto_pull repo), (git_clean, clean repo),
           (git_submodule_update, update_submodules repo)]) @
     (map (\<lambda>cmd. (cmd, True, path repo)) cmds @
      (if truthy (auto_push repo) then [(git_push, False, path repo)] else []))"
  by (simp add: spec_task_sequence_def)

lemma process_repo_as_loop:
  assumes "py_iter (commands repo) = Inr cmds"
  shows "process_repo env self repo st =
           for_each (run_task env self) (spec_task_sequence repo cmds)
             (logging INFO (ProcessingRepo (path repo)) st)"
  unfolding process_repo_def Let_def git_tasks_loop shell_loop push_loop spec_task_sequence_alt
    for_each_append[of _ "map f xs" for f xs] assms
  by (simp split: prod.splits option.splits)








lemma for_each_raise:
  "for_each body before st0 = (None, st) \<Longrightarrow> body x st = (Some e, st') \<Longrightarrow>
   for_each body (before @ x # later) st0 = (Some e, st')"
  by (simp add: for_each_append)

lemma for_each_skip:
  "for_each body before st0 = (None, st) \<Longrightarrow> body x st = (None, st') \<Longrightarrow>
   for_each body (before @ x # later) st0 = for_each body later st'"
  by (simp add: for_each_append)

lemma run_command_returned:
  assumes "\<not> dry_run self" "subprocess_run env (world st) cmd shell cwd = (Returned r, w')"
  shows "run_command env self cmd shell cwd st =
           (None, \<lparr>world = w', trace = trace st @
              [Log INFO (Executing (if shell then ''shell'' else ''git'') cmd cwd),
               Subprocess cmd shell cwd] @
              (if returncode r \<noteq> 0
               then [Log ERROR (CommandFailed (if shell then ''shell'' else ''git'') cmd),
                     Log ERROR (Output (stderr r))]
               else [Log DEBUG (Output (stdout r))])\<rparr>)"
  using assms by (simp add: run_command_def logging_def Let_def)

lemma run_command_not_started:
  assumes "\<not> dry_run self" "subprocess_run env (world st) cmd shell cwd = (NotStarted e, w')"
  shows "run_command env self cmd shell cwd st =
           (Some e, \<lparr>world = w', trace = trace st @
               [Log INFO (Executing (if shell then ''shell'' else ''git'') cmd cwd),
                Subprocess cmd shell cwd]\<rparr>)"
  using assms by (simp add: run_command_def logging_def Let_def)

lemma run_command_undecodable:
  assumes "\<not> dry_run self" "subprocess_run env (world st) cmd shell cwd = (Undecodable code, w')"
  shows "run_command env self cmd shell cwd st =
           (Some UnicodeDecodeError, \<lparr>world = w', trace = trace st @
               [Log INFO (Executing (if shell then ''shell'' else ''git'') cmd cwd),
                Subprocess cmd shell cwd]\<rparr>)"
  using assms by (simp add: run_command_def logging_def Let_def)

lemma run_command_started:
  assumes "\<not> dry_run self"
  shows "started (trace (snd (run_command env self cmd shell cwd st))) =
           started (trace st) @ [(cmd, shell, cwd)]"
proof (cases "subprocess_run env (world st) cmd shell cwd")
  case (Pair out w')
  show ?thesis
  proof (cases out)
    case (NotStarted e)
    with Pair run_command_not_started[OF assms, of env st cmd shell cwd e w']
    show ?thesis by (simp add: started_append)
  next
    case (Undecodable code)
    with Pair run_command_undecodable[OF assms, of env st cmd shell cwd code w']
    show ?thesis by (simp add: started_append)
  next
    case (Returned r)
    with Pair run_command_returned[OF assms, of env st cmd shell cwd r w']
    show ?thesis by (simp add: started_append)
  qed
qed

lemma tasks_return:
  assumes "\<not> dry_run self"
  shows "all_return env ts (world st) \<Longrightarrow>
         \<exists>st'. for_each (run_task env self) ts st = (None, st') \<and>
           started (trace st') = started (trace st) @ ts"
proof (induction ts arbitrary: st)
  case Nil
  show ?case by simp
next
  case (Cons t ts)
  obtain cmd shell cwd where t: "t = (cmd, shell, cwd)" by (cases t) auto
  obtain out w' where o: "subprocess_run env (world st) cmd shell cwd = (out, w')"
    by (cases "subprocess_run env (world st) cmd shell cwd")
  with Cons.prems t obtain r where
    r: "subprocess_run env (world st) cmd shell cwd = (Returned r, w')" "all_return env ts w'"
    by (cases out) simp_all
  from run_command_returned[OF assms r(1)] obtain st1 where
    1: "run_command env self cmd shell cwd st = (None, st1)" "world st1 = w'" by simp
  from run_command_started[OF assms, where env = env and cmd = cmd and shell = shell
      and cwd = cwd and st = st] 1(1)
  have 2: "started (trace st1) = started (trace st) @ [(cmd, shell, cwd)]" by simp
  from Cons.IH[where st = st1] r(2) 1(2) obtain st2 where
    3: "for_each (run_task env self) ts st1 = (None, st2)"
       "started (trace st2) = started (trace st1) @ ts" by auto
  show ?case using 1(1) 2 3 by (simp add: t run_task_simp)
qed




section \<open>Plans whose path is not a directory\<close>

text \<open>
  Claim C8. In housekeeping mode, when the loop of \<^verbatim>\<open>run\<close> reaches a plan whose path is
  not a directory, the plan only adds the message that it is being processed and a warning
  to the log: the world is unchanged, no subprocess is started, no exception is raised, and
  the run goes on with the plans after it.
\<close>

theorem missing_path_skipped:
  assumes "stale_days self = None"
    and "config self = before @ repo # later"
    and "for_each (run_repo env self) before (logging INFO Running st) = (None, s)"
    and "\<not> is_dir env (world s) (path repo)"
  shows "run_repo env self repo s =
           (None, s\<lparr>trace := trace s @ [Log INFO (ProcessingAt (path repo)),
                                        Log WARNING (NotADirectory (path repo))]\<rparr>)
       \<and> run env self st =
           for_each (run_repo env self) later
             (s\<lparr>trace := trace s @ [Log INFO (ProcessingAt (path repo)),
                                    Log WARNING (NotADirectory (path repo))]\<rparr>)"
proof -
  have skip: "run_repo env self repo s =
           (None, s\<lparr>trace := trace s @ [Log INFO (ProcessingAt (path repo)),
                                        Log WARNING (NotADirectory (path repo))]\<rparr>)"
    using assms(4) by (simp add: run_repo_def logging_def Let_def)
  from for_each_skip[OF assms(3) skip, where later = later] assms(1,2) skip
  show ?thesis by (simp add: run_def)
qed

theorem missing_path_skipped_witness:
  "for_each (run_repo demo_os \<lparr>config = [repo_b, repo_gone, repo_b], dry_run = True, stale_days = None\<rparr>)
      [repo_b] (logging INFO Running start)
     = (None, \<lparr>world = 0, trace = [Log INFO Running, Log INFO (ProcessingAt ''/src/b''),
          Log INFO (ProcessingRepo ''/src/b''), Log INFO (DryRunWould ''git'' git_pull ''/src/b'')]\<rparr>)
   \<and> \<not> is_dir demo_os 0 (path repo_gone)
   \<and> run demo_os \<lparr>config = [repo_b, repo_gone, repo_b], dry_run = True, stale_days = None\<rparr> start
     = (None, \<lparr>world = 0, trace = [Log INFO Running, Log INFO (ProcessingAt ''/src/b''),
          Log INFO (ProcessingRepo ''/src/b''), Log INFO (DryRunWould ''git'' git_pull ''/src/b''),
          Log INFO (ProcessingAt ''/gone''), Log WARNING (NotADirectory ''/gone''),
          Log INFO (ProcessingAt ''/src/b''),
          Log INFO (ProcessingRepo ''/src/b''), Log INFO (DryRunWould ''git'' git_pull ''/src/b'')]\<rparr>)"
proof -
  let ?self = "\<lparr>config = [repo_b, repo_gone, repo_b], dry_run = True, stale_days = None\<rparr>"
  let ?s = "\<lparr>world = 0::nat, trace = [Log INFO Running, Log INFO (ProcessingAt ''/src/b''),
          Log INFO (ProcessingRepo ''/src/b''), Log INFO (DryRunWould ''git'' git_pull ''/src/b'')]\<rparr>"
  have h1: "stale_days ?self = None" by simp
  have h2: "config ?self = [repo_b] @ repo_gone # [repo_b]" by simp
  have h3: "for_each (run_repo demo_os ?self) [repo_b] (logging INFO Running start) = (None, ?s)"
    by (simp add: run_repo_def process_repo_def run_command_def logging_def Let_def demo_os_def
        repo_b_def RepoConfig_init_def start_def)
  have h4: "\<not> is_dir demo_os (world ?s) (path repo_gone)"
    by (simp add: demo_os_def repo_gone_def RepoConfig_init_def)
  have rest: "for_each (run_repo demo_os ?self) [repo_b]
      (?s\<lparr>trace := trace ?s @ [Log INFO (ProcessingAt (path repo_gone)),
                                Log WARNING (NotADirectory (path repo_gone))]\<rparr>)
     = (None, \<lparr>world = 0, trace = [Log INFO Running, Log INFO (ProcessingAt ''/src/b''),
          Log INFO (ProcessingRepo ''/src/b''), Log INFO (DryRunWould ''git'' git_pull ''/src/b''),
          Log INFO (ProcessingAt ''/gone''), Log WARNING (NotADirectory ''/gone''),
          Log INFO (ProcessingAt ''/src/b''),
          Log INFO (ProcessingRepo ''/src/b''), Log INFO (DryRunWould ''git'' git_pull ''/src/b'')]\<rparr>)"
    by (simp add: run_repo_def process_repo_def run_command_def logging_def Let_def demo_os_def
        repo_b_def repo_gone_def RepoConfig_init_def)
  from missing_path_skipped[OF h1 h2 h3 h4] h3 h4 rest show ?thesis by simp
qed

section \<open>Loading the configuration\<close>

lemma matched_paths_no_exit: "matched_paths env w raw \<noteq> Inl (SystemExit c)"
  by (simp add: matched_paths_def Let_def split: yaml.splits option.splits)

lemma load_entry_no_exit: "load_entry env w entry \<noteq> Inl (SystemExit c)"
  using matched_paths_no_exit[of env w _ c]
  by (auto simp: load_entry_def split: yaml.splits sum.splits)

lemma load_entries_no_exit: "load_entries env w entries \<noteq> Inl (SystemExit c)"
  using load_entry_no_exit[of env w _ c]
  by (induction entries) (auto split: sum.splits)

lemma py_iter_no_exit: "py_iter v \<noteq> Inl (SystemExit c)"
  by (cases v) auto

lemma load_entries_raise:
  "load_entries env w before = Inr repos \<Longrightarrow> load_entry env w entry = Inl e \<Longrightarrow>
   load_entries env w (before @ entry # later) = Inl e"
  by (induction before arbitrary: repos) (auto split: sum.splits)

text \<open>
  Claim C10. A configuration file that exists and parses to null makes
  \<^verbatim>\<open>load_from_file\<close> raise AttributeError, and an entry of \<^verbatim>\<open>repos\<close> without the key
  \<^verbatim>\<open>path\<close>, reached after entries that loaded, makes it raise TypeError; neither is
  caught. \<^verbatim>\<open>load_from_file\<close> ends through \<^verbatim>\<open>sys.exit\<close>, with status 1, exactly when the
  file does not exist or the YAML parser rejects it.
\<close>

theorem load_uncaught_exceptions:
  "(exists env w p \<and> read_yaml env w p = Loaded YNull \<longrightarrow>
      load_from_file env w p = Inl AttributeError)
   \<and> (exists env w p
        \<and> read_yaml env w p = Loaded (YDict [(''repos'', YList (before @ YDict kvs # later))])
        \<and> load_entries env w before = Inr repos
        \<and> map_of kvs ''path'' = None \<longrightarrow>
      load_from_file env w p = Inl TypeError)
   \<and> (load_from_file env w p = Inl (SystemExit c) \<longleftrightarrow>
        c = 1 \<and> (\<not> exists env w p \<or> read_yaml env w p = YAMLError))"
proof -
  have a: "load_from_file env w p = Inl AttributeError"
    if "exists env w p" "read_yaml env w p = Loaded YNull"
    using that by (simp add: load_from_file_def)
  have b: "load_from_file env w p = Inl TypeError"
    if "exists env w p"
      "read_yaml env w p = Loaded (YDict [(''repos'', YList (before @ YDict kvs # later))])"
      "load_entries env w before = Inr repos"
      "map_of kvs ''path'' = None"
  proof -
    have "load_entry env w (YDict kvs) = Inl TypeError"
      using that(4) by (simp add: load_entry_def dict_get_def matched_paths_def)
    from load_entries_raise[OF that(3) this, where later = later] that(1,2)
    show ?thesis by (simp add: load_from_file_def dict_get_def)
  qed
  have c: "load_from_file env w p = Inl (SystemExit c) \<longleftrightarrow>
        c = 1 \<and> (\<not> exists env w p \<or> read_yaml env w p = YAMLError)"
    using load_entries_no_exit[of env w _ c] py_iter_no_exit[of _ c]
    by (auto simp: load_from_file_def split: yaml_load.splits yaml.splits sum.splits)
  show ?thesis using a b c by blast
qed

theorem load_uncaught_exceptions_witness:
  "exists null_config_os 0 ''/cfg.yaml''
   \<and> read_yaml null_config_os 0 ''/cfg.yaml'' = Loaded YNull
   \<and> load_from_file null_config_os 0 ''/cfg.yaml'' = Inl AttributeError
   \<and> exists no_path_os 0 ''/cfg.yaml''
   \<and> read_yaml no_path_os 0 ''/cfg.yaml'' = Loaded (YDict [(''repos'',
        YList ([YDict [(''path'', YStr ''/src/*'')]] @ YDict [(''auto_push'', YBool True)] # []))])
   \<and> load_entries no_path_os 0 [YDict [(''path'', YStr ''/src/*'')]]
        = Inr [repo_b\<lparr>path := ''/src/a''\<rparr>, repo_b]
   \<and> map_of [(''auto_push'', YBool True)] ''path'' = None
   \<and> load_from_file no_path_os 0 ''/cfg.yaml'' = Inl TypeError
   \<and> read_yaml bad_yaml_os 0 ''/cfg.yaml'' = YAMLError
   \<and> load_from_file bad_yaml_os 0 ''/cfg.yaml'' = Inl (SystemExit 1)
   \<and> \<not> exists demo_os 0 ''/missing.yaml''
   \<and> load_from_file demo_os 0 ''/missing.yaml'' = Inl (SystemExit 1)"
proof -
  have a1: "exists null_config_os 0 ''/cfg.yaml''" by (simp add: null_config_os_def demo_os_def)
  have a2: "read_yaml null_config_os 0 ''/cfg.yaml'' = Loaded YNull"
    by (simp add: null_config_os_def demo_os_def)
  have b1: "exists no_path_os 0 ''/cfg.yaml''" by (simp add: no_path_os_def demo_os_def)
  have b2: "read_yaml no_path_os 0 ''/cfg.yaml'' = Loaded (YDict [(''repos'',
        YList ([YDict [(''path'', YStr ''/src/*'')]] @ YDict [(''auto_push'', YBool True)] # []))])"
    by (simp add: no_path_os_def demo_os_def)
  have b3: "load_entries no_path_os 0 [YDict [(''path'', YStr ''/src/*'')]]
        = Inr [repo_b\<lparr>path := ''/src/a''\<rparr>, repo_b]"
    by (simp add: load_entry_def matched_paths_def dict_get_def has_glob_def no_path_os_def demo_os_def
        repo_b_def RepoConfig_init_def)
  have b4: "map_of [(''auto_push'', YBool True)] ''path'' = None" by simp
  have c1: "read_yaml bad_yaml_os 0 ''/cfg.yaml'' = YAMLError" by (simp add: bad_yaml_os_def demo_os_def)
  have d1: "\<not> exists demo_os 0 ''/missing.yaml''" by (simp add: demo_os_def)
  from load_uncaught_exceptions[of null_config_os 0 "''/cfg.yaml''"] a1 a2
  have a: "load_from_file null_config_os 0 ''/cfg.yaml'' = Inl AttributeError" by blast
  from load_uncaught_exceptions[of no_path_os 0 "''/cfg.yaml''" "[YDict [(''path'', YStr ''/src/*'')]]"
      "[(''auto_push'', YBool True)]" "[]"] b1 b2 b3 b4
  have b: "load_from_file no_path_os 0 ''/cfg.yaml'' = Inl TypeError" by blast
  from load_uncaught_exceptions[of bad_yaml_os 0 "''/cfg.yaml''" _ _ _ _ 1] c1
  have c: "load_from_file bad_yaml_os 0 ''/cfg.yaml'' = Inl (SystemExit 1)" by blast
  from load_uncaught_exceptions[of demo_os 0 "''/missing.yaml''" _ _ _ _ 1] d1
  have d: "load_from_file demo_os 0 ''/missing.yaml'' = Inl (SystemExit 1)" by blast
  from a1 a2 a b1 b2 b3 b4 b c1 c d1 d show ?thesis by blast
qed

section \<open>Resolving path specifiers\<close>

lemma path_RepoConfig_init [simp]: "path (RepoConfig_init p a b c d e) = p"
  by (simp add: RepoConfig_init_def)




section \<open>What a plan's path is known to be\<close>

text \<open>
  The literal specifier \<^verbatim>\<open>/plain\<close> names a directory without \<^verbatim>\<open>.git\<close>. Loading the
  configuration yields a plan for it, and the live run starts \<^verbatim>\<open>git pull\<close> there, which
  fails: neither the loader nor \<^verbatim>\<open>run\<close> looks for \<^verbatim>\<open>.git\<close> under a literal path.
\<close>

theorem literal_path_counterexample:
  "\<not> has_glob ''/plain''
   \<and> load_from_file demo_os 0 ''/cfg.yaml'' = Inr [repo_plain]
   \<and> path repo_plain = ''/plain''
   \<and> \<not> is_dir demo_os 0 (joinpath demo_os ''/plain'' ''.git'')
   \<and> run demo_os \<lparr>config = [repo_plain], dry_run = False, stale_days = None\<rparr> start
       = (None, \<lparr>world = 1, trace = [Log INFO Running, Log INFO (ProcessingAt ''/plain''),
            Log INFO (ProcessingRepo ''/plain''), Log INFO (Executing ''git'' git_pull ''/plain''),
            Subprocess git_pull False ''/plain'', Log ERROR (CommandFailed ''git'' git_pull),
            Log ERROR (Output ''err'')]\<rparr>)"
  by (simp add: has_glob_def load_from_file_def load_entry_def matched_paths_def dict_get_def
      run_def run_repo_def process_repo_def run_command_def logging_def Let_def demo_os_def
      repo_plain_def RepoConfig_init_def start_def)

text \<open>
  Claim C9, as the code has it. Every plan that comes from a specifier with a glob
  metacharacter has the resolved path of a directory entry that had a \<^verbatim>\<open>.git\<close>
  subdirectory when the configuration was loaded. A literal specifier yields a plan exactly
  when its expanded path is a directory, with or without \<^verbatim>\<open>.git\<close>. Before the tasks of
  a plan run, \<^verbatim>\<open>run\<close> checks only that the path is a directory.
\<close>

theorem plan_path_requirements:
  assumes "dict_get kvs ''path'' YNull = YStr raw_path"
    and "expanduser env raw_path = Some expanded"
    and "load_entry env w (YDict kvs) = Inr plans"
  shows "(has_glob raw_path \<longrightarrow>
            (\<forall>plan\<in>set plans. \<exists>p. path plan = resolve env w p
                                    \<and> is_dir env w (joinpath env p ''.git'')))
       \<and> (\<not> has_glob raw_path \<longrightarrow>
            map path plans = (if is_dir env w expanded then [resolve env w expanded] else []))
       \<and> (is_dir env (world st) (path repo) \<longrightarrow>
            run_repo env self repo st =
              process_repo env self repo (logging INFO (ProcessingAt (path repo)) st))"
proof -
  from assms(3) obtain ps where
    ps: "matched_paths env w (dict_get kvs ''path'' YNull) = Inr ps" "map path plans = ps"
    by (auto simp: load_entry_def comp_def split: sum.splits)
  have g: "\<exists>p. path plan = resolve env w p \<and> is_dir env w (joinpath env p ''.git'')"
    if "has_glob raw_path" "plan \<in> set plans" for plan
  proof -
    from that(2) ps(2) have "path plan \<in> set ps" by auto
    with ps(1) assms(1,2) that(1) show ?thesis
      by (auto simp: matched_paths_def Let_def split: option.splits)
  qed
  have l: "map path plans = (if is_dir env w expanded then [resolve env w expanded] else [])"
    if "\<not> has_glob raw_path"
    using ps assms(1,2) that by (auto simp: matched_paths_def split: if_splits)
  have r: "run_repo env self repo st =
              process_repo env self repo (logging INFO (ProcessingAt (path repo)) st)"
    if "is_dir env (world st) (path repo)"
    using that by (simp add: run_repo_def Let_def logging_def)
  show ?thesis using g l r by blast
qed

theorem plan_path_requirements_witness:
  "dict_get [(''path'', YStr ''/src/*'')] ''path'' YNull = YStr ''/src/*''
   \<and> expanduser demo_os ''/src/*'' = Some ''/src/*''
   \<and> load_entry demo_os 0 (YDict [(''path'', YStr ''/src/*'')])
       = Inr [repo_b\<lparr>path := ''/src/a''\<rparr>, repo_b]
   \<and> has_glob ''/src/*''
   \<and> (\<exists>p. ''/src/a'' = resolve demo_os 0 p \<and> is_dir demo_os 0 (joinpath demo_os p ''.git''))
   \<and> dict_get [(''path'', YStr ''/plain'')] ''path'' YNull = YStr ''/plain''
   \<and> expanduser demo_os ''/plain'' = Some ''/plain''
   \<and> load_entry demo_os 0 (YDict [(''path'', YStr ''/plain'')]) = Inr [repo_plain]
   \<and> \<not> has_glob ''/plain''
   \<and> map path [repo_plain] = [''/plain'']
   \<and> is_dir demo_os (world start) (path repo_plain)
   \<and> run_repo demo_os \<lparr>config = [repo_plain], dry_run = True, stale_days = None\<rparr> repo_plain start =
       process_repo demo_os \<lparr>config = [repo_plain], dry_run = True, stale_days = None\<rparr> repo_plain
         (logging INFO (ProcessingAt (path repo_plain)) start)"
proof -
  have a1: "dict_get [(''path'', YStr ''/src/*'')] ''path'' YNull = YStr ''/src/*''"
    by (simp add: dict_get_def)
  have a2: "expanduser demo_os ''/src/*'' = Some ''/src/*''" by (simp add: demo_os_def)
  have a3: "load_entry demo_os 0 (YDict [(''path'', YStr ''/src/*'')])
       = Inr [repo_b\<lparr>path := ''/src/a''\<rparr>, repo_b]"
    by (simp add: load_entry_def matched_paths_def dict_get_def has_glob_def demo_os_def repo_b_def
        RepoConfig_init_def)
  have a4: "has_glob ''/src/*''" by (simp add: has_glob_def)
  have b1: "dict_get [(''path'', YStr ''/plain'')] ''path'' YNull = YStr ''/plain''"
    by (simp add: dict_get_def)
  have b2: "expanduser demo_os ''/plain'' = Some ''/plain''" by (simp add: demo_os_def)
  have b3: "load_entry demo_os 0 (YDict [(''path'', YStr ''/plain'')]) = Inr [repo_plain]"
    by (simp add: load_entry_def matched_paths_def dict_get_def has_glob_def demo_os_def
        repo_plain_def RepoConfig_init_def)
  have b4: "\<not> has_glob ''/plain''" by (simp add: has_glob_def)
  have b5: "is_dir demo_os (world start) (path repo_plain)"
    by (simp add: demo_os_def start_def repo_plain_def RepoConfig_init_def)
  have b6: "is_dir demo_os 0 ''/plain''" by (simp add: demo_os_def)
  have b7: "resolve demo_os 0 ''/plain'' = ''/plain''" by (simp add: demo_os_def)
  from plan_path_requirements[OF a1 a2 a3] a4
  have a: "\<exists>p. ''/src/a'' = resolve demo_os 0 p \<and> is_dir demo_os 0 (joinpath demo_os p ''.git'')"
    by simp
  from plan_path_requirements[OF b1 b2 b3, where st = start and repo = repo_plain
      and self = "\<lparr>config = [repo_plain], dry_run = True, stale_days = None\<rparr>"] b4 b5 b6 b7
  have b: "map path [repo_plain] = [''/plain'']"
    "run_repo demo_os \<lparr>config = [repo_plain], dry_run = True, stale_days = None\<rparr> repo_plain start =
       process_repo demo_os \<lparr>config = [repo_plain], dry_run = True, stale_days = None\<rparr> repo_plain
         (logging INFO (ProcessingAt (path repo_plain)) start)"
    by simp_all
  from a1 a2 a3 a4 a b1 b2 b3 b4 b b5 show ?thesis by blast
qed

section \<open>Staleness\<close>

text \<open>
  Claim C5. The claim puts a last commit that is exactly the threshold old among the
  stale ones, as the message \<^verbatim>\<open>Scanning for repositories stale for >= N days\<close> of the
  program does; the test in the code is \<^verbatim>\<open>last < cutoff\<close>. With the clock at
  1702592000 and a threshold of 30 days the cutoff is 1700000000; the plan \<^verbatim>\<open>/src/b\<close>,
  without submodule updates and with its last commit at 1700000000, is not reported, while
  with a threshold of 29 days it is reported, 30 days old.
\<close>

theorem stale_boundary_not_reported:
  "time_time demo_os 0 - of_int (30 * 86400) = of_int 1700000000
   \<and> check_output demo_os 0 git_log ''/src/b'' = (Inr ''1700000000'', 1)
   \<and> py_int demo_os (str_strip demo_os ''1700000000'') = Some 1700000000
   \<and> run demo_os \<lparr>config = [repo_b], dry_run = False, stale_days = Some 30\<rparr> start
       = (None, \<lparr>world = 1, trace = [Log INFO (Scanning (Some 30)),
                                      Subprocess git_log False ''/src/b'']\<rparr>)
   \<and> run demo_os \<lparr>config = [repo_b], dry_run = False, stale_days = Some 29\<rparr> start
       = (None, \<lparr>world = 1, trace = [Log INFO (Scanning (Some 29)),
                                      Subprocess git_log False ''/src/b'',
                                      Log INFO (Stale ''/src/b'' 30)]\<rparr>)"
  by (simp add: run_def report_stale_def stale_repo_def logging_def Let_def demo_os_def repo_b_def
      RepoConfig_init_def start_def)

text \<open>
  Claim C6. In staleness mode, when the loop reaches a plan whose path is a directory,
  whose last-commit query returns a timestamp, which has \<^verbatim>\<open>update_submodules\<close> enabled and
  a \<^verbatim>\<open>.gitmodules\<close> at its path, the plan is reported stale with its age, whatever the
  cutoff and the timestamp are, and the run goes on with the plans after it.
\<close>

theorem submodules_always_stale:
  assumes "is_dir env (world st) (path repo)"
    and "check_output env (world st) git_log (path repo) = (Inr out, w')"
    and "py_int env (str_strip env out) = Some last_commit"
    and "truthy (update_submodules repo)"
    and "exists env w' (joinpath env (path repo) ''.gitmodules'')"
  shows "stale_repo env cutoff repo st =
           (None, \<lparr>world = w', trace = trace st @
              [Subprocess git_log False (path repo),
               Log INFO (Stale (path repo) ((time_time env w' - of_int last_commit) / 86400))]\<rparr>)
       \<and> (stale_days self = Some days \<and> config self = before @ repo # later
            \<and> cutoff = time_time env (world st0) - of_int (days * 86400)
            \<and> for_each (stale_repo env cutoff) before (logging INFO (Scanning (Some days)) st0)
                = (None, st) \<longrightarrow>
           run env self st0 =
             for_each (stale_repo env cutoff) later
               \<lparr>world = w', trace = trace st @
                  [Subprocess git_log False (path repo),
                   Log INFO (Stale (path repo) ((time_time env w' - of_int last_commit) / 86400))]\<rparr>)"
proof -
  have body: "stale_repo env cutoff repo st =
           (None, \<lparr>world = w', trace = trace st @
              [Subprocess git_log False (path repo),
               Log INFO (Stale (path repo) ((time_time env w' - of_int last_commit) / 86400))]\<rparr>)"
    using assms by (simp add: stale_repo_def logging_def Let_def)
  have "run env self st0 =
             for_each (stale_repo env cutoff) later
               \<lparr>world = w', trace = trace st @
                  [Subprocess git_log False (path repo),
                   Log INFO (Stale (path repo) ((time_time env w' - of_int last_commit) / 86400))]\<rparr>"
    if "stale_days self = Some days" "config self = before @ repo # later"
      "cutoff = time_time env (world st0) - of_int (days * 86400)"
      "for_each (stale_repo env cutoff) before (logging INFO (Scanning (Some days)) st0) = (None, st)"
    using for_each_skip[OF that(4) body, where later = later] that(1,2,3)
    by (simp add: run_def report_stale_def Let_def logging_def)
  with body show ?thesis by blast
qed

theorem submodules_always_stale_witness:
  "is_dir demo_os 0 (path repo_a)
   \<and> check_output demo_os 0 git_log (path repo_a) = (Inr ''1700000000'', 1)
   \<and> py_int demo_os (str_strip demo_os ''1700000000'') = Some 1700000000
   \<and> truthy (update_submodules repo_a)
   \<and> exists demo_os 1 (joinpath demo_os (path repo_a) ''.gitmodules'')
   \<and> \<not> of_int 1700000000 < time_time demo_os 0 - of_int (365 * 86400)
   \<and> run demo_os \<lparr>config = [repo_a], dry_run = False, stale_days = Some 365\<rparr> start
       = (None, \<lparr>world = 1, trace = [Log INFO (Scanning (Some 365)),
                                      Subprocess git_log False ''/src/a'',
                                      Log INFO (Stale ''/src/a'' 30)]\<rparr>)"
proof -
  let ?st = "logging INFO (Scanning (Some 365)) start"
  let ?self = "\<lparr>config = [repo_a], dry_run = False, stale_days = Some 365\<rparr>"
  let ?cutoff = "time_time demo_os (world start) - of_int (365 * 86400)"
  have h1: "is_dir demo_os (world ?st) (path repo_a)"
    by (simp add: demo_os_def repo_a_def RepoConfig_init_def start_def logging_def)
  have h2: "check_output demo_os (world ?st) git_log (path repo_a) = (Inr ''1700000000'', 1)"
    by (simp add: demo_os_def start_def logging_def)
  have h3: "py_int demo_os (str_strip demo_os ''1700000000'') = Some 1700000000" by (simp add: demo_os_def)
  have h4: "truthy (update_submodules repo_a)" by (simp add: repo_a_def RepoConfig_init_def)
  have h5: "exists demo_os 1 (joinpath demo_os (path repo_a) ''.gitmodules'')"
    by (simp add: demo_os_def repo_a_def RepoConfig_init_def)
  have young: "\<not> of_int 1700000000 < time_time demo_os 0 - of_int (365 * 86400)"
    by (simp add: demo_os_def)
  have c: "config ?self = [] @ repo_a # []" "stale_days ?self = Some 365" by simp_all
  have b: "for_each (stale_repo demo_os ?cutoff) [] (logging INFO (Scanning (Some 365)) start)
             = (None, ?st)" by simp
  from submodules_always_stale[OF h1 h2 h3 h4 h5, where cutoff = ?cutoff and self = ?self
      and days = 365 and before = "[]" and later = "[]" and ?st0.0 = start] c b
  have "run demo_os ?self start =
          (None, \<lparr>world = 1, trace = trace ?st @ [Subprocess git_log False (path repo_a),
             Log INFO (Stale (path repo_a) ((time_time demo_os 1 - of_int 1700000000) / 86400))]\<rparr>)"
    by simp
  moreover have "(time_time demo_os 1 - of_int 1700000000) / 86400 = 30" by (simp add: demo_os_def)
  moreover have "path repo_a = ''/src/a''" by (simp add: repo_a_def RepoConfig_init_def)
  moreover have "trace ?st = [Log INFO (Scanning (Some 365))]" by (simp add: logging_def start_def)
  ultimately have r: "run demo_os ?self start
       = (None, \<lparr>world = 1, trace = [Log INFO (Scanning (Some 365)),
                                      Subprocess git_log False ''/src/a'',
                                      Log INFO (Stale ''/src/a'' 30)]\<rparr>)" by simp
  from h1 h2 h3 h4 h5 young r show ?thesis by (simp add: start_def logging_def)
qed

section \<open>The order of the tasks of one repository\<close>



section \<open>Commands that fail\<close>

text \<open>
  A command that runs and exits with a non-zero code is not always reported. On the
  machine whose shell commands write bytes that are not text to their standard error, the
  first task of the plan \<^verbatim>\<open>/src/b\<close>, \<^verbatim>\<open>make\<close>, runs and exits with status 1;
  \<^verbatim>\<open>subprocess.run\<close> raises UnicodeDecodeError, which nothing catches. The run ends with
  that exception: no failure is logged, the two later tasks of the plan are not started,
  and the next plan, a directory with \<^verbatim>\<open>auto_pull\<close> enabled, is never processed.
\<close>

theorem undecodable_output_counterexample:
  "subprocess_run garbled_os 0 (YStr ''make'') True ''/src/b'' = (Undecodable 1, 1)
   \<and> run garbled_os \<lparr>config = [repo_make, repo_a], dry_run = False, stale_days = None\<rparr> start
       = (Some UnicodeDecodeError,
          \<lparr>world = 1, trace = [Log INFO Running, Log INFO (ProcessingAt ''/src/b''),
             Log INFO (ProcessingRepo ''/src/b''),
             Log INFO (Executing ''shell'' (YStr ''make'') ''/src/b''),
             Subprocess (YStr ''make'') True ''/src/b'']\<rparr>)
   \<and> spec_task_sequence repo_make [YStr ''make'', YStr ''make test'']
       = [(YStr ''make'', True, ''/src/b''), (YStr ''make test'', True, ''/src/b''),
          (git_push, False, ''/src/b'')]
   \<and> is_dir garbled_os 1 (path repo_a)
   \<and> truthy (auto_pull repo_a)"
  by (simp add: run_def run_repo_def process_repo_def run_command_def logging_def Let_def
      garbled_os_def demo_os_def repo_a_def repo_make_def RepoConfig_init_def start_def
      spec_task_sequence_def)

text \<open>
  Claim C4, as the code has it. In a live run, when a task runs, exits with a non-zero
  code and \<^verbatim>\<open>subprocess.run\<close> returns its \<^verbatim>\<open>CompletedProcess\<close>, \<^verbatim>\<open>_run_command\<close> logs two
  messages at level ERROR, the second carrying the captured standard error, and returns
  without an exception. The loop over the tasks of the plan goes on with the next task from
  the state the failed command left; when the calls of \<^verbatim>\<open>subprocess.run\<close> for the later
  tasks of the plan return, whatever their exit codes, every one of these tasks is started
  and the plan ends without an exception. When a plan ends without an exception, the run
  goes on with the plans after it.
\<close>

theorem command_failure_isolated:
  assumes "\<not> dry_run self"
    and "subprocess_run env (world s) cmd shell cwd = (Returned r, w')"
    and "returncode r \<noteq> 0"
  shows "run_command env self cmd shell cwd s =
           (None, \<lparr>world = w', trace = trace s @
              [Log INFO (Executing (if shell then ''shell'' else ''git'') cmd cwd),
               Subprocess cmd shell cwd,
               Log ERROR (CommandFailed (if shell then ''shell'' else ''git'') cmd),
               Log ERROR (Output (stderr r))]\<rparr>)
       \<and> (py_iter (commands repo) = Inr cmds
            \<and> spec_task_sequence repo cmds = before @ (cmd, shell, cwd) # later
            \<and> for_each (run_task env self) before (logging INFO (ProcessingRepo (path repo)) st)
                = (None, s) \<longrightarrow>
           process_repo env self repo st =
             for_each (run_task env self) later (snd (run_command env self cmd shell cwd s))
           \<and> (all_return env later w' \<longrightarrow>
                fst (process_repo env self repo st) = None
                \<and> started (trace (snd (process_repo env self repo st))) =
                    started (trace s) @ (cmd, shell, cwd) # later))
       \<and> (stale_days self = None
            \<and> config self = earlier @ repo # following
            \<and> for_each (run_repo env self) earlier (logging INFO Running st0) = (None, st1)
            \<and> is_dir env (world st1) (path repo)
            \<and> process_repo env self repo (logging INFO (ProcessingAt (path repo)) st1)
                = (None, st2) \<longrightarrow>
           run env self st0 = for_each (run_repo env self) following st2)"
proof -
  let ?s' = "\<lparr>world = w', trace = trace s @
              [Log INFO (Executing (if shell then ''shell'' else ''git'') cmd cwd),
               Subprocess cmd shell cwd,
               Log ERROR (CommandFailed (if shell then ''shell'' else ''git'') cmd),
               Log ERROR (Output (stderr r))]\<rparr>"
  have rc: "run_command env self cmd shell cwd s = (None, ?s')"
    using run_command_returned[OF assms(1,2)] assms(3) by simp
  have plan: "process_repo env self repo st =
             for_each (run_task env self) later (snd (run_command env self cmd shell cwd s))
           \<and> (all_return env later w' \<longrightarrow>
                fst (process_repo env self repo st) = None
                \<and> started (trace (snd (process_repo env self repo st))) =
                    started (trace s) @ (cmd, shell, cwd) # later)"
    if it: "py_iter (commands repo) = Inr cmds"
      and sq: "spec_task_sequence repo cmds = before @ (cmd, shell, cwd) # later"
      and bf: "for_each (run_task env self) before (logging INFO (ProcessingRepo (path repo)) st)
                = (None, s)"
  proof -
    have pr: "process_repo env self repo st = for_each (run_task env self) later ?s'"
      using for_each_skip[OF bf, where x = "(cmd, shell, cwd)" and later = later and st' = ?s']
        rc by (simp add: process_repo_as_loop[OF it] sq run_task_simp)
    have st: "started (trace ?s') = started (trace s) @ [(cmd, shell, cwd)]"
      by (simp add: started_append)
    have "fst (process_repo env self repo st) = None
                \<and> started (trace (snd (process_repo env self repo st))) =
                    started (trace s) @ (cmd, shell, cwd) # later"
      if "all_return env later w'"
      using tasks_return[OF assms(1), where env = env and ts = later and st = ?s'] that pr st
      by auto
    with pr rc show ?thesis by simp
  qed
  have loop: "run env self st0 = for_each (run_repo env self) following st2"
    if "stale_days self = None" "config self = earlier @ repo # following"
      "for_each (run_repo env self) earlier (logging INFO Running st0) = (None, st1)"
      "is_dir env (world st1) (path repo)"
      "process_repo env self repo (logging INFO (ProcessingAt (path repo)) st1) = (None, st2)"
  proof -
    have "run_repo env self repo st1 = (None, st2)"
      using that(4,5) by (simp add: run_repo_def Let_def logging_def)
    from for_each_skip[OF that(3) this, where later = following] that(1,2)
    show ?thesis by (simp add: run_def)
  qed
  show ?thesis using rc plan loop by blast
qed

theorem command_failure_isolated_witness:
  "subprocess_run demo_os 1 (YStr ''make test'') True ''/src/b''
     = (Returned \<lparr>returncode = 1, stdout = ''out'', stderr = ''err''\<rparr>, 2)
   \<and> py_iter (commands repo_make) = Inr [YStr ''make'', YStr ''make test'']
   \<and> spec_task_sequence repo_make [YStr ''make'', YStr ''make test'']
       = [(YStr ''make'', True, ''/src/b'')] @ (YStr ''make test'', True, ''/src/b'')
           # [(git_push, False, ''/src/b'')]
   \<and> all_return demo_os [(git_push, False, ''/src/b'')] 2
   \<and> is_dir demo_os 0 (path repo_make)
   \<and> run_command demo_os \<lparr>config = [repo_make, repo_a], dry_run = False, stale_days = None\<rparr>
         (YStr ''make test'') True ''/src/b''
         \<lparr>world = 1, trace = [Log INFO Running, Log INFO (ProcessingAt ''/src/b''),
            Log INFO (ProcessingRepo ''/src/b''),
            Log INFO (Executing ''shell'' (YStr ''make'') ''/src/b''),
            Subprocess (YStr ''make'') True ''/src/b'',
            Log ERROR (CommandFailed ''shell'' (YStr ''make'')), Log ERROR (Output ''err'')]\<rparr>
       = (None,
          \<lparr>world = 2, trace = [Log INFO Running, Log INFO (ProcessingAt ''/src/b''),
            Log INFO (ProcessingRepo ''/src/b''),
            Log INFO (Executing ''shell'' (YStr ''make'') ''/src/b''),
            Subprocess (YStr ''make'') True ''/src/b'',
            Log ERROR (CommandFailed ''shell'' (YStr ''make'')), Log ERROR (Output ''err''),
            Log INFO (Executing ''shell'' (YStr ''make test'') ''/src/b''),
            Subprocess (YStr ''make test'') True ''/src/b'',
            Log ERROR (CommandFailed ''shell'' (YStr ''make test'')),
            Log ERROR (Output ''err'')]\<rparr>)
   \<and> fst (process_repo demo_os \<lparr>config = [repo_make, repo_a], dry_run = False, stale_days = None\<rparr>
         repo_make (logging INFO (ProcessingAt ''/src/b'') (logging INFO Running start))) = None
   \<and> started (trace (snd (process_repo demo_os
         \<lparr>config = [repo_make, repo_a], dry_run = False, stale_days = None\<rparr>
         repo_make (logging INFO (ProcessingAt ''/src/b'') (logging INFO Running start)))))
       = [(YStr ''make'', True, ''/src/b''), (YStr ''make test'', True, ''/src/b''),
          (git_push, False, ''/src/b'')]
   \<and> started (trace (snd (run demo_os
         \<lparr>config = [repo_make, repo_a], dry_run = False, stale_days = None\<rparr> start)))
       = [(YStr ''make'', True, ''/src/b''), (YStr ''make test'', True, ''/src/b''),
          (git_push, False, ''/src/b''),
          (git_pull, False, ''/src/a''), (git_clean, False, ''/src/a''),
          (git_submodule_update, False, ''/src/a''), (YStr ''make'', True, ''/src/a''),
          (YStr ''make test'', True, ''/src/a''), (git_push, False, ''/src/a'')]"
proof -
  let ?self = "\<lparr>config = [repo_make, repo_a], dry_run = False, stale_days = None\<rparr>"
  let ?st = "logging INFO (ProcessingAt ''/src/b'') (logging INFO Running start)"
  let ?s = "\<lparr>world = 1::nat, trace = [Log INFO Running, Log INFO (ProcessingAt ''/src/b''),
            Log INFO (ProcessingRepo ''/src/b''),
            Log INFO (Executing ''shell'' (YStr ''make'') ''/src/b''),
            Subprocess (YStr ''make'') True ''/src/b'',
            Log ERROR (CommandFailed ''shell'' (YStr ''make'')), Log ERROR (Output ''err'')]\<rparr>"
  let ?r = "\<lparr>returncode = 1, stdout = ''out'', stderr = ''err''\<rparr>"
  have p: "path repo_make = ''/src/b''" by (simp add: repo_make_def RepoConfig_init_def)
  have h1: "\<not> dry_run ?self" by simp
  have h2: "subprocess_run demo_os (world ?s) (YStr ''make test'') True ''/src/b'' = (Returned ?r, 2)"
    by (simp add: demo_os_def)
  have h3: "returncode ?r \<noteq> 0" by simp
  have a1: "py_iter (commands repo_make) = Inr [YStr ''make'', YStr ''make test'']"
    by (simp add: repo_make_def RepoConfig_init_def)
  have a2: "spec_task_sequence repo_make [YStr ''make'', YStr ''make test'']
       = [(YStr ''make'', True, ''/src/b'')] @ (YStr ''make test'', True, ''/src/b'')
           # [(git_push, False, ''/src/b'')]"
    by (simp add: spec_task_sequence_def repo_make_def RepoConfig_init_def)
  have a3: "for_each (run_task demo_os ?self) [(YStr ''make'', True, ''/src/b'')]
              (logging INFO (ProcessingRepo (path repo_make)) ?st) = (None, ?s)"
    by (simp add: p run_task_simp run_command_def logging_def Let_def demo_os_def start_def)
  have a4: "all_return demo_os [(git_push, False, ''/src/b'')] 2" by (simp add: demo_os_def)
  have d: "is_dir demo_os 0 (path repo_make)" by (simp add: p demo_os_def)
  note inst = command_failure_isolated[OF h1 h2 h3, where repo = repo_make
      and cmds = "[YStr ''make'', YStr ''make test'']"
      and before = "[(YStr ''make'', True, ''/src/b'')]"
      and later = "[(git_push, False, ''/src/b'')]" and st = ?st
      and earlier = "[]" and following = "[repo_a]" and ?st0.0 = start
      and ?st1.0 = "logging INFO Running start"
      and ?st2.0 = "snd (process_repo demo_os ?self repo_make ?st)"]
  from inst have rc: "run_command demo_os ?self (YStr ''make test'') True ''/src/b'' ?s
       = (None, \<lparr>world = 2, trace = trace ?s @
              [Log INFO (Executing (if True then ''shell'' else ''git'') (YStr ''make test'') ''/src/b''),
               Subprocess (YStr ''make test'') True ''/src/b'',
               Log ERROR (CommandFailed (if True then ''shell'' else ''git'') (YStr ''make test'')),
               Log ERROR (Output (stderr ?r))]\<rparr>)" by blast
  from inst a1 a2 a3 a4 have pl: "fst (process_repo demo_os ?self repo_make ?st) = None"
    "started (trace (snd (process_repo demo_os ?self repo_make ?st))) =
       started (trace ?s) @ (YStr ''make test'', True, ''/src/b'') # [(git_push, False, ''/src/b'')]"
    by blast+
  have c: "stale_days ?self = None" "config ?self = [] @ repo_make # [repo_a]"
    "for_each (run_repo demo_os ?self) [] (logging INFO Running start)
       = (None, logging INFO Running start)"
    "is_dir demo_os (world (logging INFO Running start)) (path repo_make)"
    by (simp_all add: p demo_os_def logging_def start_def)
  have "process_repo demo_os ?self repo_make
          (logging INFO (ProcessingAt (path repo_make)) (logging INFO Running start))
        = (None, snd (process_repo demo_os ?self repo_make ?st))"
    using pl(1) by (simp add: p prod_eq_iff)
  with inst c have run: "run demo_os ?self start =
      for_each (run_repo demo_os ?self) [repo_a] (snd (process_repo demo_os ?self repo_make ?st))"
    by blast
  have fin: "snd (process_repo demo_os ?self repo_make ?st) =
      \<lparr>world = 3, trace = [Log INFO Running, Log INFO (ProcessingAt ''/src/b''),
            Log INFO (ProcessingRepo ''/src/b''),
            Log INFO (Executing ''shell'' (YStr ''make'') ''/src/b''),
            Subprocess (YStr ''make'') True ''/src/b'',
            Log ERROR (CommandFailed ''shell'' (YStr ''make'')), Log ERROR (Output ''err''),
            Log INFO (Executing ''shell'' (YStr ''make test'') ''/src/b''),
            Subprocess (YStr ''make test'') True ''/src/b'',
            Log ERROR (CommandFailed ''shell'' (YStr ''make test'')),
            Log ERROR (Output ''err''),
            Log INFO (Executing ''git'' git_push ''/src/b''),
            Subprocess git_push False ''/src/b'', Log DEBUG (Output ''out'')]\<rparr>"
    by (simp add: process_repo_def run_command_def logging_def Let_def demo_os_def repo_make_def
        RepoConfig_init_def start_def)
  have whole: "started (trace (snd (run demo_os ?self start)))
       = [(YStr ''make'', True, ''/src/b''), (YStr ''make test'', True, ''/src/b''),
          (git_push, False, ''/src/b''),
          (git_pull, False, ''/src/a''), (git_clean, False, ''/src/a''),
          (git_submodule_update, False, ''/src/a''), (YStr ''make'', True, ''/src/a''),
          (YStr ''make test'', True, ''/src/a''), (git_push, False, ''/src/a'')]"
    unfolding run
    by (simp add: run_repo_def process_repo_def run_command_def logging_def Let_def demo_os_def
        repo_make_def repo_a_def RepoConfig_init_def start_def)
  from h2 a1 a2 a4 d rc pl whole show ?thesis by simp
qed

section \<open>Commands that cannot be started\<close>

text \<open>
  The program has no handler for an exception of \<^verbatim>\<open>subprocess.run\<close>. On the machine
  without \<^verbatim>\<open>git\<close>, the run over the plans \<^verbatim>\<open>/src/b\<close> and \<^verbatim>\<open>/src/a\<close> ends with the
  OSError of the first \<^verbatim>\<open>git pull\<close>: nothing reports the failure, and the second plan,
  a directory with \<^verbatim>\<open>auto_pull\<close> enabled, is never processed.
\<close>

theorem launch_failure_counterexample:
  "run no_git_os \<lparr>config = [repo_b, repo_a], dry_run = False, stale_days = None\<rparr> start
     = (Some OSError, \<lparr>world = 1, trace = [Log INFO Running, Log INFO (ProcessingAt ''/src/b''),
          Log INFO (ProcessingRepo ''/src/b''), Log INFO (Executing ''git'' git_pull ''/src/b''),
          Subprocess git_pull False ''/src/b'']\<rparr>)
   \<and> is_dir no_git_os 1 (path repo_a)
   \<and> truthy (auto_pull repo_a)"
  by (simp add: run_def run_repo_def process_repo_def run_command_def logging_def Let_def no_git_os_def
        demo_os_def repo_a_def repo_b_def RepoConfig_init_def start_def)

text \<open>
  Claim C3, as the code has it. In a live run, when the command of a task cannot be
  started, \<^verbatim>\<open>_run_command\<close> raises the exception of \<^verbatim>\<open>subprocess.run\<close> after announcing
  the command, and reports no failure. The exception ends \<^verbatim>\<open>_process_repo\<close> in the state
  that command left, so the later tasks of the plan are not started; and it ends \<^verbatim>\<open>run\<close>
  in that state, so the plans after it are not processed.
\<close>

theorem launch_failure_aborts_run:
  assumes "\<not> dry_run self"
    and "subprocess_run env (world s) cmd shell cwd = (NotStarted e, w')"
  shows "run_command env self cmd shell cwd s =
           (Some e, \<lparr>world = w', trace = trace s @
              [Log INFO (Executing (if shell then ''shell'' else ''git'') cmd cwd),
               Subprocess cmd shell cwd]\<rparr>)
       \<and> (py_iter (commands repo) = Inr cmds
            \<and> spec_task_sequence repo cmds = before @ (cmd, shell, cwd) # later
            \<and> for_each (run_task env self) before (logging INFO (ProcessingRepo (path repo)) st)
                = (None, s) \<longrightarrow>
           process_repo env self repo st =
             (Some e, \<lparr>world = w', trace = trace s @
                [Log INFO (Executing (if shell then ''shell'' else ''git'') cmd cwd),
                 Subprocess cmd shell cwd]\<rparr>))
       \<and> (stale_days self = None
            \<and> config self = earlier @ repo # following
            \<and> for_each (run_repo env self) earlier (logging INFO Running st0) = (None, st1)
            \<and> is_dir env (world st1) (path repo)
            \<and> process_repo env self repo (logging INFO (ProcessingAt (path repo)) st1)
                = (Some e, st2) \<longrightarrow>
           run env self st0 = (Some e, st2))"
proof -
  let ?s' = "\<lparr>world = w', trace = trace s @
              [Log INFO (Executing (if shell then ''shell'' else ''git'') cmd cwd),
               Subprocess cmd shell cwd]\<rparr>"
  have rc: "run_command env self cmd shell cwd s = (Some e, ?s')"
    using run_command_not_started[OF assms] .
  have plan: "process_repo env self repo st = (Some e, ?s')"
    if it: "py_iter (commands repo) = Inr cmds"
      and sq: "spec_task_sequence repo cmds = before @ (cmd, shell, cwd) # later"
      and bf: "for_each (run_task env self) before (logging INFO (ProcessingRepo (path repo)) st)
                = (None, s)"
    using for_each_raise[OF bf, where x = "(cmd, shell, cwd)" and later = later and st' = ?s'
        and e = e] rc
    by (simp add: process_repo_as_loop[OF it] sq run_task_simp)
  have loop: "run env self st0 = (Some e, st2)"
    if "stale_days self = None" "config self = earlier @ repo # following"
      "for_each (run_repo env self) earlier (logging INFO Running st0) = (None, st1)"
      "is_dir env (world st1) (path repo)"
      "process_repo env self repo (logging INFO (ProcessingAt (path repo)) st1) = (Some e, st2)"
  proof -
    have "run_repo env self repo st1 = (Some e, st2)"
      using that(4,5) by (simp add: run_repo_def Let_def logging_def)
    from for_each_raise[OF that(3) this, where later = following] that(1,2)
    show ?thesis by (simp add: run_def)
  qed
  show ?thesis using rc plan loop by blast
qed

theorem launch_failure_aborts_run_witness:
  "subprocess_run cwd_gone_os 1 git_clean False ''/src/a'' = (NotStarted OSError, 2)
   \<and> py_iter (commands repo_a) = Inr [YStr ''make'', YStr ''make test'']
   \<and> spec_task_sequence repo_a [YStr ''make'', YStr ''make test'']
       = [(git_pull, False, ''/src/a'')] @ (git_clean, False, ''/src/a'')
           # [(git_submodule_update, False, ''/src/a''), (YStr ''make'', True, ''/src/a''),
              (YStr ''make test'', True, ''/src/a''), (git_push, False, ''/src/a'')]
   \<and> run_command cwd_gone_os \<lparr>config = [repo_a, repo_b], dry_run = False, stale_days = None\<rparr>
         git_clean False ''/src/a''
         \<lparr>world = 1, trace = [Log INFO Running, Log INFO (ProcessingAt ''/src/a''),
             Log INFO (ProcessingRepo ''/src/a''), Log INFO (Executing ''git'' git_pull ''/src/a''),
             Subprocess git_pull False ''/src/a'', Log DEBUG (Output ''out'')]\<rparr>
       = (Some OSError,
          \<lparr>world = 2, trace = [Log INFO Running, Log INFO (ProcessingAt ''/src/a''),
             Log INFO (ProcessingRepo ''/src/a''), Log INFO (Executing ''git'' git_pull ''/src/a''),
             Subprocess git_pull False ''/src/a'', Log DEBUG (Output ''out''),
             Log INFO (Executing ''git'' git_clean ''/src/a''),
             Subprocess git_clean False ''/src/a'']\<rparr>)
   \<and> is_dir cwd_gone_os 0 (path repo_a)
   \<and> is_dir cwd_gone_os 2 (path repo_b)
   \<and> truthy (auto_pull repo_b)
   \<and> run cwd_gone_os \<lparr>config = [repo_a, repo_b], dry_run = False, stale_days = None\<rparr> start
       = (Some OSError,
          \<lparr>world = 2, trace = [Log INFO Running, Log INFO (ProcessingAt ''/src/a''),
             Log INFO (ProcessingRepo ''/src/a''), Log INFO (Executing ''git'' git_pull ''/src/a''),
             Subprocess git_pull False ''/src/a'', Log DEBUG (Output ''out''),
             Log INFO (Executing ''git'' git_clean ''/src/a''),
             Subprocess git_clean False ''/src/a'']\<rparr>)"
proof -
  let ?self = "\<lparr>config = [repo_a, repo_b], dry_run = False, stale_days = None\<rparr>"
  let ?st = "logging INFO (ProcessingAt ''/src/a'') (logging INFO Running start)"
  let ?s = "\<lparr>world = 1::nat, trace = [Log INFO Running, Log INFO (ProcessingAt ''/src/a''),
             Log INFO (ProcessingRepo ''/src/a''), Log INFO (Executing ''git'' git_pull ''/src/a''),
             Subprocess git_pull False ''/src/a'', Log DEBUG (Output ''out'')]\<rparr>"
  let ?s2 = "\<lparr>world = 2::nat, trace = [Log INFO Running, Log INFO (ProcessingAt ''/src/a''),
             Log INFO (ProcessingRepo ''/src/a''), Log INFO (Executing ''git'' git_pull ''/src/a''),
             Subprocess git_pull False ''/src/a'', Log DEBUG (Output ''out''),
             Log INFO (Executing ''git'' git_clean ''/src/a''),
             Subprocess git_clean False ''/src/a'']\<rparr>"
  have p: "path repo_a = ''/src/a''" by (simp add: repo_a_def RepoConfig_init_def)
  have h1: "\<not> dry_run ?self" by simp
  have h2: "subprocess_run cwd_gone_os (world ?s) git_clean False ''/src/a'' = (NotStarted OSError, 2)"
    by (simp add: cwd_gone_os_def demo_os_def)
  have a1: "py_iter (commands repo_a) = Inr [YStr ''make'', YStr ''make test'']"
    by (simp add: repo_a_def RepoConfig_init_def)
  have a2: "spec_task_sequence repo_a [YStr ''make'', YStr ''make test'']
       = [(git_pull, False, ''/src/a'')] @ (git_clean, False, ''/src/a'')
           # [(git_submodule_update, False, ''/src/a''), (YStr ''make'', True, ''/src/a''),
              (YStr ''make test'', True, ''/src/a''), (git_push, False, ''/src/a'')]"
    by (simp add: spec_task_sequence_def repo_a_def RepoConfig_init_def)
  have a3: "for_each (run_task cwd_gone_os ?self) [(git_pull, False, ''/src/a'')]
              (logging INFO (ProcessingRepo (path repo_a)) ?st) = (None, ?s)"
    by (simp add: p run_task_simp run_command_def logging_def Let_def cwd_gone_os_def demo_os_def
        start_def)
  have d: "is_dir cwd_gone_os 0 (path repo_a)" "is_dir cwd_gone_os 2 (path repo_b)"
    "truthy (auto_pull repo_b)"
    by (simp_all add: p cwd_gone_os_def demo_os_def repo_b_def RepoConfig_init_def)
  have c: "stale_days ?self = None" "config ?self = [] @ repo_a # [repo_b]"
    "for_each (run_repo cwd_gone_os ?self) [] (logging INFO Running start)
       = (None, logging INFO Running start)"
    "is_dir cwd_gone_os (world (logging INFO Running start)) (path repo_a)"
    by (simp_all add: p cwd_gone_os_def demo_os_def logging_def start_def)
  note inst = launch_failure_aborts_run[OF h1 h2, where repo = repo_a
      and cmds = "[YStr ''make'', YStr ''make test'']"
      and before = "[(git_pull, False, ''/src/a'')]"
      and later = "[(git_submodule_update, False, ''/src/a''), (YStr ''make'', True, ''/src/a''),
              (YStr ''make test'', True, ''/src/a''), (git_push, False, ''/src/a'')]"
      and st = ?st and earlier = "[]" and following = "[repo_b]" and ?st0.0 = start
      and ?st1.0 = "logging INFO Running start" and ?st2.0 = ?s2]
  from inst have rc: "run_command cwd_gone_os ?self git_clean False ''/src/a'' ?s
       = (Some OSError, ?s2)" by simp
  from inst a1 a2 a3 have "process_repo cwd_gone_os ?self repo_a ?st = (Some OSError, ?s2)"
    by simp
  then have "process_repo cwd_gone_os ?self repo_a
               (logging INFO (ProcessingAt (path repo_a)) (logging INFO Running start))
             = (Some OSError, ?s2)" by (simp add: p)
  with inst c have run: "run cwd_gone_os ?self start = (Some OSError, ?s2)" by blast
  from h2 a1 a2 rc d run show ?thesis by simp
qed

section \<open>Dry runs\<close>




end
